theory Spec2Isabelle
  imports Main
begin

section \<open>Data model\<close>

text \<open>
  The interfaces of the extension. A field the interface marks optional (\<open>language?\<close>,
  \<open>path?\<close>) is an \<open>option\<close>; \<open>None\<close> is JavaScript's \<open>undefined\<close>.
\<close>

record AttachedFile =
  file_name :: string
  file_content :: string
  file_language :: "string option"
  file_path :: "string option"

record AttachedImage =
  image_name :: string
  image_data :: string
  image_mediaType :: string

record ModelInfo =
  model_id :: string
  model_name :: string
  isPaid :: bool

text \<open>
  A block of a message's content: \<open>{type: 'text', text}\<close> or
  \<open>{type: 'image', source: {type: 'base64', media_type, data}}\<close>.
\<close>

datatype content_block =
  TextBlock (block_text: string)
  | ImageBlock (media_type: string) (source_data: string)

text \<open>\<open>content: string | Array<...>\<close>.\<close>

datatype message_content =
  Plain string
  | Blocks "content_block list"

datatype role = User | Assistant

record ClaudeMessage =
  msg_role :: role
  msg_content :: message_content

section \<open>The network and thrown errors\<close>

text \<open>
  One \<open>axios.post\<close> to the messages endpoint: the body's three fields and the credential
  header (the content type and the protocol version are constants of the source).
\<close>

record http_request =
  req_url :: string
  req_model :: string
  req_max_tokens :: int
  req_messages :: "ClaudeMessage list"
  req_x_api_key :: string

text \<open>
  What a \<open>catch (error)\<close> clause receives: \<open>error.response?.status\<close> (absent when
  the failure carries no HTTP response) and \<open>error.message\<close>.
\<close>

record caught_error =
  response_status :: "nat option"
  message :: string

text \<open>A successful response: the \<open>text\<close> of each block of \<open>response.data.content\<close>.\<close>

datatype axios_response = Response (data_content: "string list")

text \<open>The remote endpoint, as a function of the request: a rejection or a response.\<close>

type_synonym network = "http_request \<Rightarrow> caught_error + axios_response"

text \<open>A JavaScript \<open>Error\<close> with its message; \<open>Inl\<close> of a result is a throw.\<close>

datatype js_error = Error (error_message: string)

text \<open>
  The result of an asynchronous call of the API client: what it returns or throws, and
  the requests it issued, in order.
\<close>

type_synonym 'a api_result = "(js_error + 'a) \<times> http_request list"

section \<open>ClaudeAPI\<close>

record ClaudeAPI =
  apiKey :: string
  model :: string
  maxTokens :: int

definition availableModels :: "ModelInfo list" where
  "availableModels =
    [\<lparr>model_id = ''claude-3-5-haiku-20241022'', model_name = ''Claude 3.5 Haiku'', isPaid = False\<rparr>,
     \<lparr>model_id = ''claude-3-haiku-20240307'', model_name = ''Claude 3 Haiku'', isPaid = False\<rparr>,
     \<lparr>model_id = ''claude-opus-4.1-20250805'', model_name = ''Claude Opus 4.1'', isPaid = True\<rparr>,
     \<lparr>model_id = ''claude-opus-4-20250514'', model_name = ''Claude Opus 4'', isPaid = True\<rparr>,
     \<lparr>model_id = ''claude-sonnet-4-20250514'', model_name = ''Claude Sonnet 4'', isPaid = True\<rparr>,
     \<lparr>model_id = ''claude-3-7-sonnet-20250219'', model_name = ''Claude 3.7 Sonnet'', isPaid = True\<rparr>,
     \<lparr>model_id = ''claude-3-5-sonnet-20241022'', model_name = ''Claude 3.5 Sonnet'', isPaid = True\<rparr>,
     \<lparr>model_id = ''claude-3-opus-20240229'', model_name = ''Claude 3 Opus'', isPaid = True\<rparr>,
     \<lparr>model_id = ''claude-3-sonnet-20240229'', model_name = ''Claude 3 Sonnet'', isPaid = True\<rparr>]"

text \<open>The free-tier subset, \<open>this.availableModels.filter(m => !m.isPaid)\<close>.\<close>

definition freeModels :: "ModelInfo list" where
  "freeModels = filter (\<lambda>m. \<not> isPaid m) availableModels"

definition endpoint :: string where
  "endpoint = ''https://api.anthropic.com/v1/messages''"

text \<open>The request \<open>checkApiKeyAccess\<close> posts to test the key.\<close>

definition probeRequest :: "ClaudeAPI \<Rightarrow> http_request" where
  "probeRequest api =
    \<lparr>req_url = endpoint,
     req_model = ''claude-3-5-haiku-20241022'',
     req_max_tokens = 10,
     req_messages = [\<lparr>msg_role = User, msg_content = Plain ''Hi''\<rparr>],
     req_x_api_key = apiKey api\<rparr>"

text \<open>
  \<open>checkApiKeyAccess\<close>: without a key, the free models and no request; otherwise one
  request, whose success gives every model and whose failure gives the free models, on
  status 401 and on anything else alike.
\<close>

definition checkApiKeyAccess :: "ClaudeAPI \<Rightarrow> network \<Rightarrow> ModelInfo list api_result" where
  "checkApiKeyAccess api net =
    (if apiKey api = [] then (Inr freeModels, [])
     else
       (case net (probeRequest api) of
          Inr response \<Rightarrow> Inr availableModels
        | Inl error \<Rightarrow>
            if response_status error = Some 401 then Inr freeModels
            else Inr freeModels,
        [probeRequest api]))"

text \<open>The messages of the errors \<open>sendMessage\<close> throws, under the names of the failure classes.\<close>

definition ConfigurationError :: js_error where
  "ConfigurationError = Error ''API key not configured. Please set your Anthropic API key.''"

definition AuthError :: js_error where
  "AuthError = Error ''Invalid API key. Please check your Anthropic API key.''"

definition ThrottledError :: js_error where
  "ThrottledError = Error ''Rate limit exceeded. Please try again later.''"

definition PlanRequiredError :: js_error where
  "PlanRequiredError = Error ''Access denied. You may need a paid plan to use this model.''"

definition TransportError :: "string \<Rightarrow> js_error" where
  "TransportError msg = Error (''API Error: '' @ msg)"

text \<open>
  Reading \<open>response.data.content[0].text\<close> of an empty content array throws a
  \<open>TypeError\<close> inside the \<open>try\<close> block; it has no \<open>response\<close> field.
\<close>

definition emptyContentError :: caught_error where
  "emptyContentError =
    \<lparr>response_status = None,
     message = ''Cannot read properties of undefined (reading 'text')''\<rparr>"

text \<open>The \<open>catch\<close> clause of \<open>sendMessage\<close>.\<close>

definition sendMessage_catch :: "caught_error \<Rightarrow> js_error" where
  "sendMessage_catch error =
    (if response_status error = Some 401 then AuthError
     else if response_status error = Some 429 then ThrottledError
     else if response_status error = Some 403 then PlanRequiredError
     else TransportError (message error))"

text \<open>\<open>selectedModel || this.model\<close>: an absent or empty selection falls back.\<close>

definition modelToUse :: "ClaudeAPI \<Rightarrow> string option \<Rightarrow> string" where
  "modelToUse api selectedModel =
    (case selectedModel of
       None \<Rightarrow> model api
     | Some m \<Rightarrow> if m = [] then model api else m)"

definition sendRequest :: "ClaudeAPI \<Rightarrow> ClaudeMessage list \<Rightarrow> string option \<Rightarrow> http_request" where
  "sendRequest api messages selectedModel =
    \<lparr>req_url = endpoint,
     req_model = modelToUse api selectedModel,
     req_max_tokens = maxTokens api,
     req_messages = messages,
     req_x_api_key = apiKey api\<rparr>"

definition sendMessage ::
  "ClaudeAPI \<Rightarrow> network \<Rightarrow> ClaudeMessage list \<Rightarrow> string option \<Rightarrow> string api_result" where
  "sendMessage api net messages selectedModel =
    (if apiKey api = [] then (Inl ConfigurationError, [])
     else
       (case net (sendRequest api messages selectedModel) of
          Inr response \<Rightarrow>
            (case data_content response of
               [] \<Rightarrow> Inl (sendMessage_catch emptyContentError)
             | t # rest \<Rightarrow> Inr t)
        | Inl error \<Rightarrow> Inl (sendMessage_catch error),
        [sendRequest api messages selectedModel]))"

section \<open>Library functions the handlers call\<close>

text \<open>
  Node's \<open>path.basename\<close> and \<open>path.extname\<close> on a POSIX file path that does not end
  in a separator: the part after the last \<open>/\<close>, and of that part the suffix from its last
  dot, empty when there is no dot, when the only dot leads the name, and for \<open>..\<close>.
\<close>

definition basename :: "string \<Rightarrow> string" where
  "basename p = rev (takeWhile (\<lambda>c. c \<noteq> CHR ''/'') (rev p))"

definition extname :: "string \<Rightarrow> string" where
  "extname p =
    (let b = basename p;
         e = rev (takeWhile (\<lambda>c. c \<noteq> CHR ''.'') (rev b))
     in if CHR ''.'' \<in> set b
        then (if Suc (length e) = length b then []
              else if b = ''..'' then []
              else CHR ''.'' # e)
        else [])"

text \<open>\<open>String.prototype.toLowerCase\<close> on ASCII text.\<close>

definition toLowerCase :: "string \<Rightarrow> string" where
  "toLowerCase s =
    map (\<lambda>c. if 65 \<le> (of_char c :: nat) \<and> (of_char c :: nat) \<le> 90
              then char_of (of_char c + (32 :: nat)) else c) s"

text \<open>
  A number inside a template string, for an integer that is the value of a JavaScript
  number (a double). \<open>Number::toString\<close> prints the shortest digits that read back as the
  same double, the nearest to it if there are several, followed by zeros up to 21 digits
  and in exponent form beyond.
\<close>

function decimal :: "int \<Rightarrow> string" where
  "decimal n =
    (if 10 \<le> n then decimal (n div 10) @ [''0123456789'' ! nat (n mod 10)]
     else [''0123456789'' ! nat n])"
  by pat_completeness auto
termination
  by (relation "measure nat") auto

declare decimal.simps [simp del]

function bitlen :: "int \<Rightarrow> nat" where
  "bitlen n = (if n \<le> 0 then 0 else Suc (bitlen (n div 2)))"
  by pat_completeness auto
termination
  by (relation "measure nat") auto

declare bitlen.simps [simp del]

text \<open>The double nearest to an integer: 53 significant bits, a tie goes to the even one.\<close>

definition toDouble :: "int \<Rightarrow> int" where
  "toDouble x =
    (let b = bitlen x
     in if b \<le> 53 then x
        else
          let u = 2 ^ (b - 53); q = x div u; r = x mod u
          in if u < 2 * r \<or> (2 * r = u \<and> odd q) then (q + 1) * u else q * u)"

text \<open>
  For an \<open>x\<close> of \<open>n\<close> digits, the numbers of \<open>k\<close> significant digits next to \<open>x\<close> that are
  read as the double of \<open>x\<close>, the nearer one first (of two equally near, the one whose last
  digit is even).
\<close>

definition shortCandidates :: "int \<Rightarrow> nat \<Rightarrow> nat \<Rightarrow> int list" where
  "shortCandidates x n k =
    (let p = 10 ^ (n - k); lo = (x div p) * p; hi = lo + p
     in filter (\<lambda>c. toDouble c = toDouble x)
          (if x - lo < hi - x then [lo, hi]
           else if hi - x < x - lo then [hi, lo]
           else if even (x div p) then [lo, hi]
           else [hi, lo]))"

definition shortest :: "int \<Rightarrow> int" where
  "shortest x =
    (let n = length (decimal x)
     in case concat (map (shortCandidates x n) [1..<Suc n]) of
          [] \<Rightarrow> x
        | c # cs \<Rightarrow> c)"

text \<open>The text of a number that is not negative.\<close>

definition template_nat :: "int \<Rightarrow> string" where
  "template_nat x =
    (let digits = decimal (shortest x); n = length digits
     in if n \<le> 21 then digits
        else
          (case rev (dropWhile (\<lambda>c. c = CHR ''0'') (rev digits)) of
             [] \<Rightarrow> digits
           | [d] \<Rightarrow> d # ''e+'' @ decimal (int (n - 1))
           | d # ds \<Rightarrow> d # CHR ''.'' # ds @ ''e+'' @ decimal (int (n - 1))))"

definition template_number :: "int \<Rightarrow> string" where
  "template_number i =
    (if i < 0 then CHR ''-'' # template_nat (- i) else template_nat i)"

text \<open>An optional string inside a template string: \<open>undefined\<close> prints as its name.\<close>

definition template_string :: "string option \<Rightarrow> string" where
  "template_string v = (case v of None \<Rightarrow> ''undefined'' | Some s \<Rightarrow> s)"

text \<open>
  The file system as the handlers read it: \<open>fs.readFileSync(p, 'utf-8')\<close> and
  \<open>fs.readFileSync(p).toString('base64')\<close>; \<open>None\<close> is a throw.
\<close>

record filesystem =
  read_utf8 :: "string \<Rightarrow> string option"
  read_base64 :: "string \<Rightarrow> string option"

section \<open>ClaudeCodeAssistant\<close>

text \<open>
  The fields of the class the handlers read or write. \<open>chatPanel\<close> is whether the panel
  is defined.
\<close>

record ClaudeCodeAssistant =
  claudeAPI :: ClaudeAPI
  attachedFiles :: "AttachedFile list"
  attachedImages :: "AttachedImage list"
  chatPanel :: bool
  currentActiveFile :: "string option"

text \<open>The state the constructor leaves, for a given configuration of the client.\<close>

definition initial :: "ClaudeAPI \<Rightarrow> ClaudeCodeAssistant" where
  "initial api =
    \<lparr>claudeAPI = api, attachedFiles = [], attachedImages = [],
     chatPanel = False, currentActiveFile = None\<rparr>"

text \<open>The messages posted to the webview and the notifications shown, as values.\<close>

datatype webview_message =
  UpdateAttachments "(string \<times> string option) list" "string list"
  | ReceiveMessage string
  | ReceiveError string
  | UpdateModels "ModelInfo list"

datatype effect =
  PostMessage webview_message
  | ShowWarningMessage string
  | ShowErrorMessage string

text \<open>What the document of a text editor gives \<open>attachCurrentFile\<close>.\<close>

record TextEditor =
  document_fileName :: string
  document_languageId :: string
  document_getText :: string
  document_uri_scheme :: string

definition updateChatAttachments :: "ClaudeCodeAssistant \<Rightarrow> effect list" where
  "updateChatAttachments s =
    (if chatPanel s
     then [PostMessage (UpdateAttachments
             (map (\<lambda>f. (file_name f, file_path f)) (attachedFiles s))
             (map image_name (attachedImages s)))]
     else [])"

definition attachCurrentFile ::
  "ClaudeCodeAssistant \<Rightarrow> TextEditor \<Rightarrow> ClaudeCodeAssistant \<times> effect list" where
  "attachCurrentFile s editor =
    (let filePath = document_fileName editor;
         fileName = basename filePath;
         language = document_languageId editor;
         content = document_getText editor
     in if currentActiveFile s = Some filePath then (s, [])
        else
          let s1 = s\<lparr>attachedFiles :=
                     filter (\<lambda>f. file_path f \<noteq> currentActiveFile s) (attachedFiles s)\<rparr>;
              s2 = s1\<lparr>attachedFiles := attachedFiles s1 @
                     [\<lparr>file_name = fileName, file_content = content,
                       file_language = Some language, file_path = Some filePath\<rparr>]\<rparr>;
              s3 = s2\<lparr>currentActiveFile := Some filePath\<rparr>
          in (s3, if chatPanel s3 then updateChatAttachments s3 else []))"

text \<open>The listener \<open>setupFileWatcher\<close> registers, given the \<open>autoAttachFile\<close> setting.\<close>

definition onDidChangeActiveTextEditor ::
  "ClaudeCodeAssistant \<Rightarrow> bool \<Rightarrow> TextEditor option \<Rightarrow> ClaudeCodeAssistant \<times> effect list" where
  "onDidChangeActiveTextEditor s autoAttach editor =
    (case editor of
       None \<Rightarrow> (s, [])
     | Some e \<Rightarrow>
         if autoAttach \<and> document_uri_scheme e = ''file'' then attachCurrentFile s e
         else (s, []))"

definition getLanguageFromExtension :: "string \<Rightarrow> string" where
  "getLanguageFromExtension ext =
    (case map_of
       [(''.js'', ''javascript''), (''.ts'', ''typescript''), (''.py'', ''python''),
        (''.java'', ''java''), (''.cpp'', ''cpp''), (''.c'', ''c''), (''.cs'', ''csharp''),
        (''.php'', ''php''), (''.rb'', ''ruby''), (''.go'', ''go''), (''.rs'', ''rust''),
        (''.swift'', ''swift''), (''.json'', ''json''), (''.xml'', ''xml''),
        (''.yaml'', ''yaml''), (''.yml'', ''yaml''), (''.md'', ''markdown'')] ext of
       None \<Rightarrow> ''text''
     | Some l \<Rightarrow> l)"

definition getMediaType :: "string \<Rightarrow> string" where
  "getMediaType ext =
    (case map_of
       [(''.png'', ''image/png''), (''.jpg'', ''image/jpeg''), (''.jpeg'', ''image/jpeg''),
        (''.gif'', ''image/gif''), (''.webp'', ''image/webp'')] ext of
       None \<Rightarrow> ''image/jpeg''
     | Some t \<Rightarrow> t)"

text \<open>
  \<open>handleFileAttachment\<close>. \<open>dialog\<close> is the path the open dialog returned, \<open>None\<close> when
  it was dismissed. The file is read before the check for a duplicate.
\<close>

definition handleFileAttachment ::
  "ClaudeCodeAssistant \<Rightarrow> string option \<Rightarrow> filesystem \<Rightarrow> ClaudeCodeAssistant \<times> effect list" where
  "handleFileAttachment s dialog fs =
    (case dialog of
       None \<Rightarrow> (s, [])
     | Some filePath \<Rightarrow>
         (case read_utf8 fs filePath of
            None \<Rightarrow> (s, [ShowErrorMessage ''Failed to read file''])
          | Some content \<Rightarrow>
              let fileName = basename filePath;
                  language = getLanguageFromExtension (extname fileName)
              in if find (\<lambda>f. file_path f = Some filePath) (attachedFiles s) \<noteq> None
                 then (s, [ShowWarningMessage ''File already attached''])
                 else
                   let s1 = s\<lparr>attachedFiles := attachedFiles s @
                              [\<lparr>file_name = fileName, file_content = content,
                                file_language = Some language, file_path = Some filePath\<rparr>]\<rparr>
                   in (s1, updateChatAttachments s1)))"

text \<open>
  \<open>handleImageAttachment\<close> runs in two parts, with \<open>await showOpenDialog\<close> between them;
  while it waits, other handlers run. The first part reads the setting \<open>maxImages\<close> and
  checks the limit on the state at the call: \<open>Some\<close> of the warning when the call ends
  there, \<open>None\<close> when it goes on to open the dialog.
\<close>

definition handleImageAttachment_check :: "ClaudeCodeAssistant \<Rightarrow> int \<Rightarrow> effect list option" where
  "handleImageAttachment_check s maxImages =
    (if int (length (attachedImages s)) \<ge> maxImages
     then Some [ShowWarningMessage
                 (''Maximum '' @ template_number maxImages @ '' images allowed'')]
     else None)"

text \<open>
  The second part runs when the dialog has returned, on the state the assistant has by
  then; it does not look at the limit again.
\<close>

definition handleImageAttachment_resume ::
  "ClaudeCodeAssistant \<Rightarrow> string option \<Rightarrow> filesystem \<Rightarrow> ClaudeCodeAssistant \<times> effect list" where
  "handleImageAttachment_resume s dialog fs =
    (case dialog of
       None \<Rightarrow> (s, [])
     | Some filePath \<Rightarrow>
         let fileName = basename filePath;
             extension = toLowerCase (extname fileName);
             mediaType = getMediaType extension
         in (case read_base64 fs filePath of
               None \<Rightarrow> (s, [ShowErrorMessage ''Failed to read image''])
             | Some data \<Rightarrow>
                 let s1 = s\<lparr>attachedImages := attachedImages s @
                            [\<lparr>image_name = fileName, image_data = data,
                              image_mediaType = mediaType\<rparr>]\<rparr>
                 in (s1, updateChatAttachments s1)))"

text \<open>A call of \<open>handleImageAttachment\<close> during which no other handler runs.\<close>

definition handleImageAttachment ::
  "ClaudeCodeAssistant \<Rightarrow> int \<Rightarrow> string option \<Rightarrow> filesystem \<Rightarrow> ClaudeCodeAssistant \<times> effect list" where
  "handleImageAttachment s maxImages dialog fs =
    (case handleImageAttachment_check s maxImages of
       Some warning \<Rightarrow> (s, warning)
     | None \<Rightarrow> handleImageAttachment_resume s dialog fs)"

definition removeAttachedFile ::
  "ClaudeCodeAssistant \<Rightarrow> string \<Rightarrow> ClaudeCodeAssistant \<times> effect list" where
  "removeAttachedFile s filePath =
    (let s1 = s\<lparr>attachedFiles :=
                 filter (\<lambda>f. file_path f \<noteq> Some filePath) (attachedFiles s)\<rparr>;
         s2 = (if currentActiveFile s1 = Some filePath
               then s1\<lparr>currentActiveFile := None\<rparr> else s1)
     in (s2, updateChatAttachments s2))"

definition removeAttachedImage ::
  "ClaudeCodeAssistant \<Rightarrow> string \<Rightarrow> ClaudeCodeAssistant \<times> effect list" where
  "removeAttachedImage s imageName =
    (let s1 = s\<lparr>attachedImages :=
                 filter (\<lambda>i. image_name i \<noteq> imageName) (attachedImages s)\<rparr>
     in (s1, updateChatAttachments s1))"

section \<open>Composing and sending a chat message\<close>

text \<open>One file of the \<open>for\<close> loop of \<open>handleChatMessage\<close>, as the template string renders it.\<close>

definition fileBlock :: "AttachedFile \<Rightarrow> string" where
  "fileBlock file =
    ''\<newline>**'' @ file_name file @ ''** ('' @ template_string (file_language file) @
    ''):\<newline>```'' @ template_string (file_language file) @ ''\<newline>'' @
    file_content file @ ''\<newline>```\<newline>''"

text \<open>The text after the attached files have been added to it.\<close>

definition augmentedText :: "ClaudeCodeAssistant \<Rightarrow> string \<Rightarrow> string" where
  "augmentedText s text =
    (if length (attachedFiles s) > 0
     then text @ foldl (\<lambda>fileContext file. fileContext @ fileBlock file)
                   ''\<newline>\<newline>**Attached Files:**\<newline>'' (attachedFiles s)
     else text)"

definition imageBlock :: "AttachedImage \<Rightarrow> content_block" where
  "imageBlock img = ImageBlock (image_mediaType img) (image_data img)"

text \<open>The \<open>content\<close> of the message \<open>handleChatMessage\<close> sends.\<close>

definition messageContent :: "ClaudeCodeAssistant \<Rightarrow> string \<Rightarrow> message_content" where
  "messageContent s text =
    (if length (attachedImages s) > 0
     then Blocks (TextBlock (augmentedText s text) # map imageBlock (attachedImages s))
     else Plain (augmentedText s text))"

text \<open>
  \<open>handleChatMessage\<close>: one user message, sent with the selected model; the answer or
  the error's message goes to the panel when there is one.
\<close>

definition handleChatMessage ::
  "ClaudeCodeAssistant \<Rightarrow> network \<Rightarrow> string \<Rightarrow> string \<Rightarrow> effect list \<times> http_request list" where
  "handleChatMessage s net text selectedModel =
    (let messages = [\<lparr>msg_role = User, msg_content = messageContent s text\<rparr>];
         (result, requests) = sendMessage (claudeAPI s) net messages (Some selectedModel)
     in (case result of
           Inr response \<Rightarrow> if chatPanel s then [PostMessage (ReceiveMessage response)] else []
         | Inl error \<Rightarrow> if chatPanel s then [PostMessage (ReceiveError (error_message error))] else [],
         requests))"

section \<open>Sequences of operations on the attachments\<close>

text \<open>
  What can change the attachments: the three attach and the two remove commands of the
  panel, and the listener for a change of the active editor. Each carries what the
  handler takes from its surroundings at that call. An action is a handler that runs
  from its start to its end with no other handler in between: \<open>handleFileAttachment\<close>
  does nothing before its dialog has returned and does not wait after it, the remove
  handlers and the listener never wait, and \<open>AttachImage\<close> is a call of
  \<open>handleImageAttachment\<close> that nothing interleaves with.
\<close>

datatype action =
  AttachFile "string option" filesystem
  | AttachImage int "string option" filesystem
  | FocusChange bool "TextEditor option"
  | RemoveFile string
  | RemoveImage string

fun step :: "ClaudeCodeAssistant \<Rightarrow> action \<Rightarrow> ClaudeCodeAssistant" where
  "step s (AttachFile dialog fs) = fst (handleFileAttachment s dialog fs)"
| "step s (AttachImage maxImages dialog fs) = fst (handleImageAttachment s maxImages dialog fs)"
| "step s (FocusChange autoAttach editor) = fst (onDidChangeActiveTextEditor s autoAttach editor)"
| "step s (RemoveFile filePath) = fst (removeAttachedFile s filePath)"
| "step s (RemoveImage imageName) = fst (removeAttachedImage s imageName)"

definition run :: "ClaudeCodeAssistant \<Rightarrow> action list \<Rightarrow> ClaudeCodeAssistant" where
  "run s acts = foldl step s acts"

text \<open>An action that, when it attaches an image, does so under the limit \<open>maxImages\<close>.\<close>

fun usesLimit :: "int \<Rightarrow> action \<Rightarrow> bool" where
  "usesLimit maxImages (AttachImage m dialog fs) = (m = maxImages)"
| "usesLimit maxImages a = True"

text \<open>
  The panel's dispatcher (\<open>onDidReceiveMessage\<close>) starts a handler for each command as
  it arrives and does not wait for the handler of an earlier command to end. So an
  \<open>attachImage\<close> command may arrive while earlier calls of \<open>handleImageAttachment\<close> still
  wait for their dialogs. An event is the arrival of that command (the first part of the
  handler runs), the return of the dialog of a waiting call (its second part runs), or
  an action that runs undivided.
\<close>

datatype event =
  ImageCommand int
  | DialogClosed "string option" filesystem
  | Undivided action

text \<open>The assistant together with the number of calls that wait for their dialog.\<close>

fun handle :: "ClaudeCodeAssistant \<times> nat \<Rightarrow> event \<Rightarrow> ClaudeCodeAssistant \<times> nat" where
  "handle (s, waiting) (ImageCommand maxImages) =
    (case handleImageAttachment_check s maxImages of
       Some warning \<Rightarrow> (s, waiting)
     | None \<Rightarrow> (s, Suc waiting))"
| "handle (s, waiting) (DialogClosed dialog fs) =
    (if waiting = 0 then (s, waiting)
     else (fst (handleImageAttachment_resume s dialog fs), waiting - 1))"
| "handle (s, waiting) (Undivided a) = (step s a, waiting)"

definition dispatch :: "ClaudeCodeAssistant \<Rightarrow> event list \<Rightarrow> ClaudeCodeAssistant \<times> nat" where
  "dispatch s events = foldl handle (s, 0) events"

text \<open>The file \<open>attachCurrentFile\<close> builds from an editor's document.\<close>

definition documentFile :: "TextEditor \<Rightarrow> AttachedFile" where
  "documentFile editor =
    \<lparr>file_name = basename (document_fileName editor),
     file_content = document_getText editor,
     file_language = Some (document_languageId editor),
     file_path = Some (document_fileName editor)\<rparr>"

section \<open>Concrete configurations and endpoints\<close>

text \<open>A client with a key and one without, with the defaults of \<open>updateConfig\<close> otherwise.\<close>

definition keyedAPI :: ClaudeAPI where
  "keyedAPI =
    \<lparr>apiKey = ''sk-ant-test'', model = ''claude-3-5-haiku-20241022'', maxTokens = 200000\<rparr>"

definition unkeyedAPI :: ClaudeAPI where
  "unkeyedAPI = \<lparr>apiKey = [], model = ''claude-3-5-haiku-20241022'', maxTokens = 200000\<rparr>"

text \<open>An endpoint that rejects every request the same way, and one that answers every request.\<close>

definition rejecting :: "nat option \<Rightarrow> string \<Rightarrow> network" where
  "rejecting status msg = (\<lambda>rq. Inl \<lparr>response_status = status, message = msg\<rparr>)"

definition answering :: "string list \<Rightarrow> network" where
  "answering texts = (\<lambda>rq. Inr (Response texts))"

text \<open>A session with no attachment, and one holding a file and two images.\<close>

definition emptySession :: ClaudeCodeAssistant where
  "emptySession = (initial keyedAPI)\<lparr>chatPanel := True\<rparr>"

definition pictureSession :: ClaudeCodeAssistant where
  "pictureSession =
    emptySession
      \<lparr>attachedFiles :=
         [\<lparr>file_name = ''a.py'', file_content = ''print(1)'',
           file_language = Some ''python'', file_path = Some ''/w/a.py''\<rparr>],
       attachedImages :=
         [\<lparr>image_name = ''one.png'', image_data = ''iVBORw0KGgo='', image_mediaType = ''image/png''\<rparr>,
          \<lparr>image_name = ''two.jpg'', image_data = ''/9j/4AAQSkZJRg=='', image_mediaType = ''image/jpeg''\<rparr>]\<rparr>"

text \<open>Two documents an editor can show, and a disk that holds a source file and an image.\<close>

definition pyEditor :: TextEditor where
  "pyEditor =
    \<lparr>document_fileName = ''/w/a.py'', document_languageId = ''python'',
     document_getText = ''print(1)'', document_uri_scheme = ''file''\<rparr>"

definition tsEditor :: TextEditor where
  "tsEditor =
    \<lparr>document_fileName = ''/w/b.ts'', document_languageId = ''typescript'',
     document_getText = ''let x = 1'', document_uri_scheme = ''file''\<rparr>"

definition disk :: filesystem where
  "disk =
    \<lparr>read_utf8 = map_of [(''/w/a.py'', ''print(1)''), (''/w/b.ts'', ''let x = 1'')],
     read_base64 = map_of [(''/w/one.png'', ''iVBORw0KGgo='')]\<rparr>"

text \<open>Five requests to attach the image on the disk, under a limit of three.\<close>

definition fiveImages :: "action list" where
  "fiveImages = replicate 5 (AttachImage 3 (Some ''/w/one.png'') disk)"


text \<open>A file attached by hand, and then the focus on another document.\<close>

definition twoFiles :: ClaudeCodeAssistant where
  "twoFiles =
    run emptySession [AttachFile (Some ''/w/b.ts'') disk, FocusChange True (Some pyEditor)]"

text \<open>Attaching a file by hand and then focusing the editor that shows the same file.\<close>

definition attachThenFocus :: "action list" where
  "attachThenFocus = [AttachFile (Some ''/w/a.py'') disk, FocusChange True (Some pyEditor)]"

text \<open>The actions other than a change of focus.\<close>

fun manual :: "action \<Rightarrow> bool" where
  "manual (FocusChange autoAttach editor) = False"
| "manual a = True"

section \<open>The model catalog\<close>

lemma freeModels_eq:
  "freeModels =
    [\<lparr>model_id = ''claude-3-5-haiku-20241022'', model_name = ''Claude 3.5 Haiku'', isPaid = False\<rparr>,
     \<lparr>model_id = ''claude-3-haiku-20240307'', model_name = ''Claude 3 Haiku'', isPaid = False\<rparr>]"
  by (simp add: freeModels_def availableModels_def)

lemma length_availableModels: "length availableModels = 9"
  by (simp add: availableModels_def)

lemma length_freeModels: "length freeModels = 2"
  by (simp add: freeModels_eq)

section \<open>The capability probe\<close>

lemma checkApiKeyAccess_requests:
  "snd (checkApiKeyAccess api net) = (if apiKey api = [] then [] else [probeRequest api])"
  by (simp add: checkApiKeyAccess_def)

lemma checkApiKeyAccess_result:
  "fst (checkApiKeyAccess api net) =
    Inr (if apiKey api = [] then freeModels
         else case net (probeRequest api) of Inr r \<Rightarrow> availableModels | Inl e \<Rightarrow> freeModels)"
  by (simp add: checkApiKeyAccess_def split: sum.split)

text \<open>
  C2. \<open>checkApiKeyAccess\<close> never throws: its result is always a list of models. When the
  request it issued succeeds the result is the whole catalog; when that request fails
  with status 401, and when it fails in any other way, the result is the free-tier
  subset, which holds 2 of the 9 entries of the catalog.
\<close>

theorem checkApiKeyAccess_classifies:
  "(\<exists>models. fst (checkApiKeyAccess api net) = Inr models) \<and>
   (\<forall>rq r. rq \<in> set (snd (checkApiKeyAccess api net)) \<longrightarrow> net rq = Inr r \<longrightarrow>
      fst (checkApiKeyAccess api net) = Inr availableModels) \<and>
   (\<forall>rq e. rq \<in> set (snd (checkApiKeyAccess api net)) \<longrightarrow> net rq = Inl e \<longrightarrow>
      response_status e = Some 401 \<longrightarrow>
      fst (checkApiKeyAccess api net) = Inr freeModels) \<and>
   (\<forall>rq e. rq \<in> set (snd (checkApiKeyAccess api net)) \<longrightarrow> net rq = Inl e \<longrightarrow>
      response_status e \<noteq> Some 401 \<longrightarrow>
      fst (checkApiKeyAccess api net) = Inr freeModels) \<and>
   freeModels = filter (\<lambda>m. \<not> isPaid m) availableModels \<and>
   length freeModels = 2 \<and> length availableModels = 9"
proof -
  have "\<exists>models. fst (checkApiKeyAccess api net) = Inr models"
    by (simp add: checkApiKeyAccess_result)
  moreover have "fst (checkApiKeyAccess api net) = Inr availableModels"
    if "rq \<in> set (snd (checkApiKeyAccess api net))" "net rq = Inr r" for rq r
    using that by (simp add: checkApiKeyAccess_requests checkApiKeyAccess_result split: if_splits)
  moreover have "fst (checkApiKeyAccess api net) = Inr freeModels"
    if "rq \<in> set (snd (checkApiKeyAccess api net))" "net rq = Inl e" for rq e
    using that by (simp add: checkApiKeyAccess_requests checkApiKeyAccess_result split: if_splits)
  ultimately show ?thesis
    by (simp add: freeModels_def [symmetric] length_freeModels length_availableModels)
qed

theorem checkApiKeyAccess_classifies_witness:
  "probeRequest keyedAPI \<in> set (snd (checkApiKeyAccess keyedAPI (answering [''Hello'']))) \<and>
   answering [''Hello''] (probeRequest keyedAPI) = Inr (Response [''Hello'']) \<and>
   fst (checkApiKeyAccess keyedAPI (answering [''Hello''])) = Inr availableModels \<and>
   probeRequest keyedAPI \<in> set (snd (checkApiKeyAccess keyedAPI (rejecting (Some 401) ''Unauthorized''))) \<and>
   rejecting (Some 401) ''Unauthorized'' (probeRequest keyedAPI) =
     Inl \<lparr>response_status = Some 401, message = ''Unauthorized''\<rparr> \<and>
   fst (checkApiKeyAccess keyedAPI (rejecting (Some 401) ''Unauthorized'')) = Inr freeModels \<and>
   probeRequest keyedAPI \<in> set (snd (checkApiKeyAccess keyedAPI (rejecting None ''Network Error''))) \<and>
   rejecting None ''Network Error'' (probeRequest keyedAPI) =
     Inl \<lparr>response_status = None, message = ''Network Error''\<rparr> \<and>
   fst (checkApiKeyAccess keyedAPI (rejecting None ''Network Error'')) = Inr freeModels"
proof -
  have key: "apiKey keyedAPI \<noteq> []"
    by (simp add: keyedAPI_def)
  have a1: "probeRequest keyedAPI \<in> set (snd (checkApiKeyAccess keyedAPI net))" for net
    by (simp add: checkApiKeyAccess_requests key)
  have a2: "answering [''Hello''] (probeRequest keyedAPI) = Inr (Response [''Hello''])"
    by (simp add: answering_def)
  have b2: "rejecting (Some 401) ''Unauthorized'' (probeRequest keyedAPI) =
      Inl \<lparr>response_status = Some 401, message = ''Unauthorized''\<rparr>"
    by (simp add: rejecting_def)
  have c2: "rejecting None ''Network Error'' (probeRequest keyedAPI) =
      Inl \<lparr>response_status = None, message = ''Network Error''\<rparr>"
    by (simp add: rejecting_def)
  have a3: "fst (checkApiKeyAccess keyedAPI (answering [''Hello''])) = Inr availableModels"
    using checkApiKeyAccess_classifies [of keyedAPI "answering [''Hello'']"] a1 a2 by blast
  have b3: "fst (checkApiKeyAccess keyedAPI (rejecting (Some 401) ''Unauthorized'')) = Inr freeModels"
    using checkApiKeyAccess_classifies [of keyedAPI "rejecting (Some 401) ''Unauthorized''"] a1 b2
    by (metis caught_error.select_convs(1))
  have c3: "fst (checkApiKeyAccess keyedAPI (rejecting None ''Network Error'')) = Inr freeModels"
    using checkApiKeyAccess_classifies [of keyedAPI "rejecting None ''Network Error''"] a1 c2
    by (metis caught_error.select_convs(1) option.distinct(1))
  show ?thesis
    using a1 a2 a3 b2 b3 c2 c3 by simp
qed

text \<open>
  C10. With an empty key \<open>checkApiKeyAccess\<close> returns the free-tier subset and issues no
  request; a request is issued only with a key, and then it is the one probe request.
\<close>

theorem checkApiKeyAccess_without_key:
  "(apiKey api = [] \<longrightarrow> checkApiKeyAccess api net = (Inr freeModels, [])) \<and>
   (snd (checkApiKeyAccess api net) \<noteq> [] \<longrightarrow> apiKey api \<noteq> []) \<and>
   (apiKey api \<noteq> [] \<longrightarrow> snd (checkApiKeyAccess api net) = [probeRequest api]) \<and>
   freeModels = filter (\<lambda>m. \<not> isPaid m) availableModels"
  by (simp add: checkApiKeyAccess_def freeModels_def [symmetric])

theorem checkApiKeyAccess_without_key_witness:
  "apiKey unkeyedAPI = [] \<and>
   checkApiKeyAccess unkeyedAPI (answering [''Hello'']) = (Inr freeModels, []) \<and>
   snd (checkApiKeyAccess keyedAPI (answering [''Hello''])) \<noteq> [] \<and>
   apiKey keyedAPI \<noteq> [] \<and>
   snd (checkApiKeyAccess keyedAPI (answering [''Hello''])) = [probeRequest keyedAPI]"
proof -
  have u: "apiKey unkeyedAPI = []"
    by (simp add: unkeyedAPI_def)
  have k: "apiKey keyedAPI \<noteq> []"
    by (simp add: keyedAPI_def)
  have r: "snd (checkApiKeyAccess keyedAPI (answering [''Hello''])) = [probeRequest keyedAPI]"
    using checkApiKeyAccess_without_key [of keyedAPI "answering [''Hello'']"] k by blast
  have f: "checkApiKeyAccess unkeyedAPI (answering [''Hello'']) = (Inr freeModels, [])"
    using checkApiKeyAccess_without_key [of unkeyedAPI "answering [''Hello'']"] u by blast
  show ?thesis
    using u k r f by simp
qed

section \<open>Sending a message\<close>








section \<open>Composing a message\<close>

lemma handleChatMessage_requests:
  "snd (handleChatMessage s net text sel) =
    (if apiKey (claudeAPI s) = [] then []
     else [sendRequest (claudeAPI s)
             [\<lparr>msg_role = User, msg_content = messageContent s text\<rparr>] (Some sel)])"
  by (simp add: handleChatMessage_def sendMessage_def Let_def)

lemma handleChatMessage_request_messages:
  assumes "rq \<in> set (snd (handleChatMessage s net text sel))"
  shows "req_messages rq = [\<lparr>msg_role = User, msg_content = messageContent s text\<rparr>]"
  using assms by (simp add: handleChatMessage_requests sendRequest_def split: if_splits)

lemma foldl_append_concat:
  "foldl (\<lambda>acc x. acc @ f x) init xs = init @ concat (map f xs)"
  by (induction xs arbitrary: init) simp_all

lemma augmentedText_eq:
  "augmentedText s text =
    (if attachedFiles s = [] then text
     else text @ ''\<newline>\<newline>**Attached Files:**\<newline>'' @
       concat (map (\<lambda>file.
         ''\<newline>**'' @ file_name file @ ''** ('' @
         (case file_language file of None \<Rightarrow> ''undefined'' | Some l \<Rightarrow> l) @
         ''):\<newline>```'' @
         (case file_language file of None \<Rightarrow> ''undefined'' | Some l \<Rightarrow> l) @
         ''\<newline>'' @ file_content file @ ''\<newline>```\<newline>'') (attachedFiles s)))"
proof -
  have "fileBlock =
      (\<lambda>file. ''\<newline>**'' @ file_name file @ ''** ('' @
         (case file_language file of None \<Rightarrow> ''undefined'' | Some l \<Rightarrow> l) @
         ''):\<newline>```'' @
         (case file_language file of None \<Rightarrow> ''undefined'' | Some l \<Rightarrow> l) @
         ''\<newline>'' @ file_content file @ ''\<newline>```\<newline>'')"
    by (rule ext) (simp add: fileBlock_def template_string_def)
  then show ?thesis
    by (simp add: augmentedText_def foldl_append_concat del: append_assoc)
qed

text \<open>
  C4. With \<open>N \<ge> 1\<close> attached images the content \<open>handleChatMessage\<close> builds is a list of
  \<open>N + 1\<close> blocks. Block 0 is the text block of the augmented text: the text itself when
  no file is attached, and otherwise the text, the heading of the attached files and for
  each file, in order, its name, its language and its content in a fenced block. Block
  \<open>i + 1\<close> is the image block with the media type and the base64 data of the \<open>i\<close>-th
  attached image. Every request \<open>handleChatMessage\<close> issues carries that content in its
  one user message.
\<close>

theorem handleChatMessage_image_blocks:
  assumes "attachedImages s \<noteq> []"
  shows "(\<exists>blocks.
            messageContent s text = Blocks blocks \<and>
            length blocks = length (attachedImages s) + 1 \<and>
            blocks ! 0 =
              TextBlock
                (if attachedFiles s = [] then text
                 else text @ ''\<newline>\<newline>**Attached Files:**\<newline>'' @
                   concat (map (\<lambda>file.
                     ''\<newline>**'' @ file_name file @ ''** ('' @
                     (case file_language file of None \<Rightarrow> ''undefined'' | Some l \<Rightarrow> l) @
                     ''):\<newline>```'' @
                     (case file_language file of None \<Rightarrow> ''undefined'' | Some l \<Rightarrow> l) @
                     ''\<newline>'' @ file_content file @ ''\<newline>```\<newline>'')
                     (attachedFiles s))) \<and>
            (\<forall>i < length (attachedImages s).
               blocks ! (i + 1) =
                 ImageBlock (image_mediaType (attachedImages s ! i))
                   (image_data (attachedImages s ! i)))) \<and>
         (\<forall>rq \<in> set (snd (handleChatMessage s net text sel)).
            req_messages rq = [\<lparr>msg_role = User, msg_content = messageContent s text\<rparr>])"
proof -
  let ?blocks = "TextBlock (augmentedText s text) # map imageBlock (attachedImages s)"
  have "messageContent s text = Blocks ?blocks"
    using assms by (simp add: messageContent_def)
  moreover have "length ?blocks = length (attachedImages s) + 1"
    by simp
  moreover have "?blocks ! 0 = TextBlock (augmentedText s text)"
    by simp
  moreover have "?blocks ! (i + 1) =
      ImageBlock (image_mediaType (attachedImages s ! i)) (image_data (attachedImages s ! i))"
    if "i < length (attachedImages s)" for i
    using that by (simp add: imageBlock_def)
  ultimately show ?thesis
    unfolding augmentedText_eq using handleChatMessage_request_messages by blast
qed

theorem handleChatMessage_image_blocks_witness:
  "attachedImages pictureSession \<noteq> [] \<and>
   (\<exists>blocks.
      messageContent pictureSession ''explain'' = Blocks blocks \<and>
      length blocks = 3 \<and>
      blocks ! 0 =
        TextBlock ''explain\<newline>\<newline>**Attached Files:**\<newline>\<newline>**a.py** (python):\<newline>```python\<newline>print(1)\<newline>```\<newline>'' \<and>
      blocks ! 1 = ImageBlock ''image/png'' ''iVBORw0KGgo='' \<and>
      blocks ! 2 = ImageBlock ''image/jpeg'' ''/9j/4AAQSkZJRg=='') \<and>
   messageContent pictureSession ''explain'' =
     Blocks
       [TextBlock ''explain\<newline>\<newline>**Attached Files:**\<newline>\<newline>**a.py** (python):\<newline>```python\<newline>print(1)\<newline>```\<newline>'',
        ImageBlock ''image/png'' ''iVBORw0KGgo='',
        ImageBlock ''image/jpeg'' ''/9j/4AAQSkZJRg=='']"
proof -
  have imgs: "attachedImages pictureSession =
      [\<lparr>image_name = ''one.png'', image_data = ''iVBORw0KGgo='', image_mediaType = ''image/png''\<rparr>,
       \<lparr>image_name = ''two.jpg'', image_data = ''/9j/4AAQSkZJRg=='', image_mediaType = ''image/jpeg''\<rparr>]"
    by (simp add: pictureSession_def)
  have files: "attachedFiles pictureSession =
      [\<lparr>file_name = ''a.py'', file_content = ''print(1)'',
        file_language = Some ''python'', file_path = Some ''/w/a.py''\<rparr>]"
    by (simp add: pictureSession_def)
  have ne: "attachedImages pictureSession \<noteq> []"
    by (simp add: imgs)
  obtain blocks where b:
    "messageContent pictureSession ''explain'' = Blocks blocks"
    "length blocks = length (attachedImages pictureSession) + 1"
    "blocks ! 0 =
       TextBlock
         (if attachedFiles pictureSession = [] then ''explain''
          else ''explain'' @ ''\<newline>\<newline>**Attached Files:**\<newline>'' @
            concat (map (\<lambda>file.
              ''\<newline>**'' @ file_name file @ ''** ('' @
              (case file_language file of None \<Rightarrow> ''undefined'' | Some l \<Rightarrow> l) @
              ''):\<newline>```'' @
              (case file_language file of None \<Rightarrow> ''undefined'' | Some l \<Rightarrow> l) @
              ''\<newline>'' @ file_content file @ ''\<newline>```\<newline>'')
              (attachedFiles pictureSession)))"
    "\<forall>i < length (attachedImages pictureSession).
       blocks ! (i + 1) =
         ImageBlock (image_mediaType (attachedImages pictureSession ! i))
           (image_data (attachedImages pictureSession ! i))"
    using handleChatMessage_image_blocks [OF ne, of "''explain''" "answering []" "[]"] by blast
  have 0: "blocks ! 0 =
      TextBlock ''explain\<newline>\<newline>**Attached Files:**\<newline>\<newline>**a.py** (python):\<newline>```python\<newline>print(1)\<newline>```\<newline>''"
    using b(3) by (simp add: files)
  have 1: "blocks ! 1 = ImageBlock ''image/png'' ''iVBORw0KGgo=''"
    using b(4) [rule_format, of 0] by (simp add: imgs)
  have 2: "blocks ! 2 = ImageBlock ''image/jpeg'' ''/9j/4AAQSkZJRg==''"
    using b(4) [rule_format, of 1] by (simp add: imgs numeral_2_eq_2)
  have l: "length blocks = 3"
    using b(2) by (simp add: imgs)
  have "blocks = [blocks ! 0, blocks ! 1, blocks ! 2]"
    using l by (auto simp: list_eq_iff_nth_eq less_Suc_eq numeral_3_eq_3 numeral_2_eq_2)
  then have "messageContent pictureSession ''explain'' =
      Blocks [blocks ! 0, blocks ! 1, blocks ! 2]"
    using b(1) by simp
  then show ?thesis
    using ne b(1) l 0 1 2 by auto
qed

text \<open>
  C5. With no attached file and no attached image the content \<open>handleChatMessage\<close> builds
  is the text it was given, unchanged, and every request it issues carries that text as
  the content of its one user message.
\<close>

theorem handleChatMessage_identity:
  assumes "attachedFiles s = []" and "attachedImages s = []"
  shows "messageContent s text = Plain text \<and>
         (\<forall>rq \<in> set (snd (handleChatMessage s net text sel)).
            req_messages rq = [\<lparr>msg_role = User, msg_content = Plain text\<rparr>])"
proof -
  have "messageContent s text = Plain text"
    using assms by (simp add: messageContent_def augmentedText_def)
  then show ?thesis
    using handleChatMessage_request_messages [of _ s net "text" sel] by simp
qed

theorem handleChatMessage_identity_witness:
  "attachedFiles emptySession = [] \<and> attachedImages emptySession = [] \<and>
   messageContent emptySession ''explain this'' = Plain ''explain this'' \<and>
   snd (handleChatMessage emptySession (answering [''ok'']) ''explain this'' []) \<noteq> [] \<and>
   req_messages (hd (snd (handleChatMessage emptySession (answering [''ok'']) ''explain this'' []))) =
     [\<lparr>msg_role = User, msg_content = Plain ''explain this''\<rparr>]"
proof -
  have f: "attachedFiles emptySession = []" and i: "attachedImages emptySession = []"
    by (simp_all add: emptySession_def initial_def)
  have n: "snd (handleChatMessage emptySession (answering [''ok'']) ''explain this'' []) \<noteq> []"
    by (simp add: handleChatMessage_requests emptySession_def initial_def keyedAPI_def)
  then have "hd (snd (handleChatMessage emptySession (answering [''ok'']) ''explain this'' []))
      \<in> set (snd (handleChatMessage emptySession (answering [''ok'']) ''explain this'' []))"
    by simp
  then show ?thesis
    using handleChatMessage_identity [OF f i, of "''explain this''" "answering [''ok'']" "[]"] f i n
    by blast
qed

section \<open>Attaching the focused document\<close>

lemma attachCurrentFile_same:
  assumes "currentActiveFile s = Some (document_fileName e)"
  shows "attachCurrentFile s e = (s, [])"
  using assms by (simp add: attachCurrentFile_def)

lemma attachCurrentFile_other:
  assumes "currentActiveFile s \<noteq> Some (document_fileName e)"
  shows "fst (attachCurrentFile s e) =
    s\<lparr>attachedFiles :=
        filter (\<lambda>f. file_path f \<noteq> currentActiveFile s) (attachedFiles s) @ [documentFile e],
      currentActiveFile := Some (document_fileName e)\<rparr>"
  using assms by (simp add: attachCurrentFile_def documentFile_def Let_def)

lemma attachCurrentFile_tracks:
  "currentActiveFile (fst (attachCurrentFile s e)) = Some (document_fileName e)"
  by (cases "currentActiveFile s = Some (document_fileName e)")
    (simp_all add: attachCurrentFile_same attachCurrentFile_other)

text \<open>
  C6. \<open>attachCurrentFile\<close> on the document whose path is the tracked one changes nothing
  and posts nothing. On another document it drops the files whose path is the tracked
  one, appends the file built from the document (base name, text, language, path) and
  tracks the document's path; nothing else of the state changes. A second call with the
  same document is a no-op.
\<close>

theorem attachCurrentFile_contract:
  "(currentActiveFile s = Some (document_fileName e) \<longrightarrow> attachCurrentFile s e = (s, [])) \<and>
   (currentActiveFile s \<noteq> Some (document_fileName e) \<longrightarrow>
      fst (attachCurrentFile s e) =
        s\<lparr>attachedFiles :=
            filter (\<lambda>f. file_path f \<noteq> currentActiveFile s) (attachedFiles s) @ [documentFile e],
          currentActiveFile := Some (document_fileName e)\<rparr>) \<and>
   attachCurrentFile (fst (attachCurrentFile s e)) e = (fst (attachCurrentFile s e), [])"
  using attachCurrentFile_same [of s e] attachCurrentFile_other [of s e]
    attachCurrentFile_same [OF attachCurrentFile_tracks, of s e]
  by blast

theorem attachCurrentFile_contract_witness:
  "currentActiveFile emptySession \<noteq> Some (document_fileName pyEditor) \<and>
   attachedFiles (fst (attachCurrentFile emptySession pyEditor)) =
     [\<lparr>file_name = ''a.py'', file_content = ''print(1)'',
       file_language = Some ''python'', file_path = Some ''/w/a.py''\<rparr>] \<and>
   currentActiveFile (fst (attachCurrentFile emptySession pyEditor)) = Some ''/w/a.py'' \<and>
   currentActiveFile (fst (attachCurrentFile emptySession pyEditor)) =
     Some (document_fileName pyEditor) \<and>
   attachCurrentFile (fst (attachCurrentFile emptySession pyEditor)) pyEditor =
     (fst (attachCurrentFile emptySession pyEditor), [])"
proof -
  let ?s = "fst (attachCurrentFile emptySession pyEditor)"
  have n: "currentActiveFile emptySession \<noteq> Some (document_fileName pyEditor)"
    by (simp add: emptySession_def initial_def)
  have d: "documentFile pyEditor =
      \<lparr>file_name = ''a.py'', file_content = ''print(1)'',
       file_language = Some ''python'', file_path = Some ''/w/a.py''\<rparr>"
    by (simp add: documentFile_def pyEditor_def basename_def)
  have st: "?s = emptySession
      \<lparr>attachedFiles :=
         filter (\<lambda>f. file_path f \<noteq> currentActiveFile emptySession) (attachedFiles emptySession)
           @ [documentFile pyEditor],
       currentActiveFile := Some (document_fileName pyEditor)\<rparr>"
    using attachCurrentFile_contract [of emptySession pyEditor] n by blast
  have f: "attachedFiles ?s =
      [\<lparr>file_name = ''a.py'', file_content = ''print(1)'',
        file_language = Some ''python'', file_path = Some ''/w/a.py''\<rparr>]"
    by (simp add: st d) (simp add: emptySession_def initial_def)
  have c: "currentActiveFile ?s = Some (document_fileName pyEditor)"
    by (simp add: st)
  have c': "currentActiveFile ?s = Some ''/w/a.py''"
    by (simp add: c) (simp add: pyEditor_def)
  have i: "attachCurrentFile ?s pyEditor = (?s, [])"
    using attachCurrentFile_contract [of ?s pyEditor] c by blast
  show ?thesis
    using n f c c' i by simp
qed

section \<open>Removing a file\<close>

lemma removeAttachedFile_files:
  "attachedFiles (fst (removeAttachedFile s p)) =
    filter (\<lambda>f. file_path f \<noteq> Some p) (attachedFiles s)"
  by (simp add: removeAttachedFile_def Let_def)

lemma removeAttachedFile_images:
  "attachedImages (fst (removeAttachedFile s p)) = attachedImages s"
  by (simp add: removeAttachedFile_def Let_def)

lemma removeAttachedFile_tracked:
  "currentActiveFile (fst (removeAttachedFile s p)) =
    (if currentActiveFile s = Some p then None else currentActiveFile s)"
  by (simp add: removeAttachedFile_def Let_def)

lemma removeAttachedFile_idem:
  "fst (removeAttachedFile (fst (removeAttachedFile s p)) p) = fst (removeAttachedFile s p)"
  by (simp add: removeAttachedFile_def Let_def)

lemma filter_path_absent:
  assumes "Some p \<notin> set (map file_path fs)"
  shows "filter (\<lambda>f. file_path f \<noteq> Some p) fs = fs"
  using assms by (induction fs) auto

lemma removeAttachedFile_state:
  "fst (removeAttachedFile s p) =
    s\<lparr>attachedFiles := filter (\<lambda>f. file_path f \<noteq> Some p) (attachedFiles s),
      currentActiveFile := (if currentActiveFile s = Some p then None else currentActiveFile s)\<rparr>"
  by (simp add: removeAttachedFile_def Let_def)

text \<open>
  C8. \<open>removeAttachedFile\<close> changes the state in two places only: the files lose those
  whose path is the removed one and keep every other file in order, and the tracked path
  is cleared when it is the removed one; the images stay. So removing the tracked path
  leaves no file with that path and no tracked path; when the document at that path is
  focused next, \<open>attachCurrentFile\<close> puts its file back, as the one file with that path,
  and tracks it again. Removing a path no file has leaves the files and the images as
  they were, and removing a path a second time changes nothing.
\<close>

theorem removeAttachedFile_contract:
  "fst (removeAttachedFile s p) =
     s\<lparr>attachedFiles := filter (\<lambda>f. file_path f \<noteq> Some p) (attachedFiles s),
       currentActiveFile := (if currentActiveFile s = Some p then None else currentActiveFile s)\<rparr> \<and>
   snd (removeAttachedFile s p) = updateChatAttachments (fst (removeAttachedFile s p)) \<and>
   attachedImages (fst (removeAttachedFile s p)) = attachedImages s \<and>
   (currentActiveFile s = Some p \<longrightarrow>
      currentActiveFile (fst (removeAttachedFile s p)) = None \<and>
      Some p \<notin> set (map file_path (attachedFiles (fst (removeAttachedFile s p)))) \<and>
      (document_fileName e = p \<longrightarrow>
         filter (\<lambda>f. file_path f = Some p)
           (attachedFiles (fst (attachCurrentFile (fst (removeAttachedFile s p)) e))) =
           [documentFile e] \<and>
         filter (\<lambda>f. file_path f \<noteq> Some p)
           (attachedFiles (fst (attachCurrentFile (fst (removeAttachedFile s p)) e))) =
           filter (\<lambda>f. file_path f \<noteq> None)
             (filter (\<lambda>f. file_path f \<noteq> Some p) (attachedFiles s)) \<and>
         currentActiveFile (fst (attachCurrentFile (fst (removeAttachedFile s p)) e)) = Some p)) \<and>
   (Some p \<notin> set (map file_path (attachedFiles s)) \<longrightarrow>
      attachedFiles (fst (removeAttachedFile s p)) = attachedFiles s \<and>
      attachedImages (fst (removeAttachedFile s p)) = attachedImages s) \<and>
   fst (removeAttachedFile (fst (removeAttachedFile s p)) p) = fst (removeAttachedFile s p)"
proof -
  let ?r = "fst (removeAttachedFile s p)"
  have eff: "snd (removeAttachedFile s p) = updateChatAttachments ?r"
    by (simp add: removeAttachedFile_def Let_def)
  have gone: "Some p \<notin> set (map file_path (attachedFiles ?r))"
    by (auto simp: removeAttachedFile_files)
  have again: "filter (\<lambda>f. file_path f = Some p) (attachedFiles (fst (attachCurrentFile ?r e))) =
      [documentFile e] \<and>
      filter (\<lambda>f. file_path f \<noteq> Some p) (attachedFiles (fst (attachCurrentFile ?r e))) =
        filter (\<lambda>f. file_path f \<noteq> None)
          (filter (\<lambda>f. file_path f \<noteq> Some p) (attachedFiles s)) \<and>
      currentActiveFile (fst (attachCurrentFile ?r e)) = Some p"
    if "currentActiveFile s = Some p" "document_fileName e = p"
  proof -
    have none: "currentActiveFile ?r = None"
      using that(1) by (simp add: removeAttachedFile_tracked)
    then have "currentActiveFile ?r \<noteq> Some (document_fileName e)"
      by simp
    from attachCurrentFile_other [OF this]
    have files: "attachedFiles (fst (attachCurrentFile ?r e)) =
        filter (\<lambda>f. file_path f \<noteq> None) (attachedFiles ?r) @ [documentFile e]"
      by (simp add: none)
    have "filter (\<lambda>f. file_path f = Some p)
        (filter (\<lambda>f. file_path f \<noteq> None) (attachedFiles ?r)) = []"
      by (auto simp: removeAttachedFile_files filter_empty_conv)
    moreover have "filter (\<lambda>f. file_path f \<noteq> Some p)
        (filter (\<lambda>f. file_path f \<noteq> None) (attachedFiles ?r)) =
        filter (\<lambda>f. file_path f \<noteq> None)
          (filter (\<lambda>f. file_path f \<noteq> Some p) (attachedFiles s))"
      by (simp add: removeAttachedFile_files conj_commute cong: conj_cong)
    moreover have "file_path (documentFile e) = Some p"
      using that(2) by (simp add: documentFile_def)
    ultimately show ?thesis
      using that(2) by (simp add: files attachCurrentFile_tracks)
  qed
  have absent: "attachedFiles ?r = attachedFiles s"
    if "Some p \<notin> set (map file_path (attachedFiles s))"
    using filter_path_absent [OF that] by (simp add: removeAttachedFile_files)
  show ?thesis
    using removeAttachedFile_state [of s p] eff gone again absent removeAttachedFile_idem [of s p]
    by (simp add: removeAttachedFile_tracked removeAttachedFile_images)
qed

theorem removeAttachedFile_contract_witness:
  "map file_path (attachedFiles twoFiles) = [Some ''/w/b.ts'', Some ''/w/a.py''] \<and>
   currentActiveFile twoFiles = Some ''/w/a.py'' \<and>
   document_fileName pyEditor = ''/w/a.py'' \<and>
   attachedFiles (fst (removeAttachedFile twoFiles ''/w/a.py'')) =
     [\<lparr>file_name = ''b.ts'', file_content = ''let x = 1'',
       file_language = Some ''typescript'', file_path = Some ''/w/b.ts''\<rparr>] \<and>
   currentActiveFile (fst (removeAttachedFile twoFiles ''/w/a.py'')) = None \<and>
   attachedFiles (fst (attachCurrentFile (fst (removeAttachedFile twoFiles ''/w/a.py'')) pyEditor)) =
     [\<lparr>file_name = ''b.ts'', file_content = ''let x = 1'',
       file_language = Some ''typescript'', file_path = Some ''/w/b.ts''\<rparr>,
      \<lparr>file_name = ''a.py'', file_content = ''print(1)'',
       file_language = Some ''python'', file_path = Some ''/w/a.py''\<rparr>] \<and>
   filter (\<lambda>f. file_path f = Some ''/w/a.py'')
     (attachedFiles (fst (attachCurrentFile (fst (removeAttachedFile twoFiles ''/w/a.py'')) pyEditor)))
     = [documentFile pyEditor] \<and>
   Some ''/w/b.ts'' \<notin> set (map file_path (attachedFiles pictureSession)) \<and>
   attachedFiles (fst (removeAttachedFile pictureSession ''/w/b.ts'')) = attachedFiles pictureSession"
proof -
  let ?b = "\<lparr>file_name = ''b.ts'', file_content = ''let x = 1'',
    file_language = Some ''typescript'', file_path = Some ''/w/b.ts''\<rparr>"
  let ?a = "\<lparr>file_name = ''a.py'', file_content = ''print(1)'',
    file_language = Some ''python'', file_path = Some ''/w/a.py''\<rparr>"
  let ?r = "fst (removeAttachedFile twoFiles ''/w/a.py'')"
  have f: "attachedFiles twoFiles = [?b, ?a]"
    by code_simp
  have c: "currentActiveFile twoFiles = Some ''/w/a.py''"
    by code_simp
  have n: "document_fileName pyEditor = ''/w/a.py''"
    by (simp add: pyEditor_def)
  have d: "documentFile pyEditor = ?a"
    by (simp add: documentFile_def pyEditor_def basename_def)
  have a: "Some ''/w/b.ts'' \<notin> set (map file_path (attachedFiles pictureSession))"
    by (simp add: pictureSession_def)
  note t1 = removeAttachedFile_contract [of twoFiles "''/w/a.py''" pyEditor]
  note t2 = removeAttachedFile_contract [of pictureSession "''/w/b.ts''" pyEditor]
  have "?r = twoFiles
      \<lparr>attachedFiles := filter (\<lambda>f. file_path f \<noteq> Some ''/w/a.py'') (attachedFiles twoFiles),
       currentActiveFile :=
         (if currentActiveFile twoFiles = Some ''/w/a.py'' then None
          else currentActiveFile twoFiles)\<rparr>"
    using t1 by blast
  then have 0: "attachedFiles ?r = [?b]"
    by (simp add: f)
  have 1: "currentActiveFile ?r = None"
    using t1 c by blast
  have 2: "filter (\<lambda>f. file_path f = Some ''/w/a.py'') (attachedFiles (fst (attachCurrentFile ?r pyEditor)))
      = [documentFile pyEditor]"
    using t1 c n by blast
  have "attachedFiles (fst (attachCurrentFile ?r pyEditor)) =
      filter (\<lambda>f. file_path f \<noteq> currentActiveFile ?r) (attachedFiles ?r) @ [documentFile pyEditor]"
    using attachCurrentFile_other [of ?r pyEditor] by (simp add: 1)
  then have 3: "attachedFiles (fst (attachCurrentFile ?r pyEditor)) = [?b, ?a]"
    by (simp add: 0 1 d)
  have 4: "attachedFiles (fst (removeAttachedFile pictureSession ''/w/b.ts'')) =
      attachedFiles pictureSession"
    using t2 a by blast
  have m: "map file_path (attachedFiles twoFiles) = [Some ''/w/b.ts'', Some ''/w/a.py'']"
    by (simp add: f)
  show ?thesis
    using m c n 0 1 2 3 4 a by blast
qed

section \<open>Numbers in template strings\<close>

text \<open>
  Up to \<open>2\<^sup>5\<^sup>3\<close> every digit is printed; a larger number prints rounded to its
  shortest digits, and from \<open>10\<^sup>2\<^sup>1\<close> on in exponent form.
\<close>

lemma template_number_small:
  "template_number 3 = ''3''"
  "template_number (- 12) = ''-12''"
  "template_number 9007199254740992 = ''9007199254740992''"
  by code_simp+

lemma template_number_large:
  "template_number 1152921504606846976 = ''1152921504606847000''"
  "template_number (- 1000000000000000000000) = ''-1e+21''"
  "template_number 1180591620717411303424 = ''1.1805916207174113e+21''"
  "template_number 99999999999999991611392 = ''1e+23''"
  by code_simp+

section \<open>Attaching images\<close>

lemma handleImageAttachment_full:
  assumes "maxImages \<le> int (length (attachedImages s))"
  shows "handleImageAttachment s maxImages dialog fs =
    (s, [ShowWarningMessage (''Maximum '' @ template_number maxImages @ '' images allowed'')])"
  using assms by (simp add: handleImageAttachment_def handleImageAttachment_check_def handleImageAttachment_resume_def)

lemma handleImageAttachment_inserts:
  assumes "int (length (attachedImages s)) < maxImages" and "read_base64 fs p = Some d"
  shows "handleImageAttachment s maxImages (Some p) fs =
    (s\<lparr>attachedImages := attachedImages s @
         [\<lparr>image_name = basename p, image_data = d,
           image_mediaType = getMediaType (toLowerCase (extname (basename p)))\<rparr>]\<rparr>,
     updateChatAttachments
       (s\<lparr>attachedImages := attachedImages s @
         [\<lparr>image_name = basename p, image_data = d,
           image_mediaType = getMediaType (toLowerCase (extname (basename p)))\<rparr>]\<rparr>))"
  using assms by (simp add: handleImageAttachment_def handleImageAttachment_check_def handleImageAttachment_resume_def Let_def)

lemma handleImageAttachment_bound:
  assumes "int (length (attachedImages s)) \<le> maxImages"
  shows "int (length (attachedImages (fst (handleImageAttachment s maxImages dialog fs))))
    \<le> maxImages"
  using assms
  by (auto simp: handleImageAttachment_def handleImageAttachment_check_def handleImageAttachment_resume_def Let_def split: option.splits)

lemma handleFileAttachment_images:
  "attachedImages (fst (handleFileAttachment s dialog fs)) = attachedImages s"
  by (simp add: handleFileAttachment_def Let_def split: option.splits)

lemma attachCurrentFile_images:
  "attachedImages (fst (attachCurrentFile s e)) = attachedImages s"
  by (simp add: attachCurrentFile_def Let_def)

lemma onDidChangeActiveTextEditor_images:
  "attachedImages (fst (onDidChangeActiveTextEditor s autoAttach editor)) = attachedImages s"
  by (simp add: onDidChangeActiveTextEditor_def attachCurrentFile_images split: option.splits)

lemma removeAttachedImage_images:
  "attachedImages (fst (removeAttachedImage s n)) =
    filter (\<lambda>i. image_name i \<noteq> n) (attachedImages s)"
  by (simp add: removeAttachedImage_def Let_def)

lemma step_image_bound:
  assumes "usesLimit maxImages a" and "int (length (attachedImages s)) \<le> maxImages"
  shows "int (length (attachedImages (step s a))) \<le> maxImages"
proof (cases a)
  case (AttachImage m dialog fs)
  with assms show ?thesis
    by (simp add: handleImageAttachment_bound)
next
  case (RemoveImage n)
  have "int (length (filter (\<lambda>i. image_name i \<noteq> n) (attachedImages s)))
      \<le> int (length (attachedImages s))"
    by simp
  also have "\<dots> \<le> maxImages"
    by (rule assms(2))
  finally show ?thesis
    using RemoveImage by (simp add: removeAttachedImage_images)
qed (use assms(2) in \<open>simp_all add: handleFileAttachment_images
      onDidChangeActiveTextEditor_images removeAttachedFile_images\<close>)

lemma run_image_bound:
  assumes "list_all (usesLimit maxImages) acts" and "int (length (attachedImages s)) \<le> maxImages"
  shows "int (length (attachedImages (run s acts))) \<le> maxImages"
  using assms unfolding run_def
proof (induction acts arbitrary: s)
  case Nil
  then show ?case by simp
next
  case (Cons a acts)
  from Cons.prems have "int (length (attachedImages (step s a))) \<le> maxImages"
    by (simp add: step_image_bound)
  with Cons.prems(1) Cons.IH show ?case
    by simp
qed

lemma run_image_bound_initial:
  assumes "list_all (usesLimit maxImages) acts" and "0 \<le> maxImages"
  shows "int (length (attachedImages (run (initial api) acts))) \<le> maxImages"
  using assms(2) by (intro run_image_bound [OF assms(1)]) (simp add: initial_def)

text \<open>
  Five calls one after the other under a limit of three: the last two are turned away.
\<close>

lemma fiveImages_one_by_one:
  "length (attachedImages (run emptySession fiveImages)) = 3"
  by code_simp

lemma handleImageAttachment_at_limit:
  "handleImageAttachment (run emptySession (take 3 fiveImages)) 3 (Some ''/w/one.png'') disk =
    (run emptySession (take 3 fiveImages), [ShowWarningMessage ''Maximum 3 images allowed''])"
  by code_simp

text \<open>
  A command that arrives at the limit ends at the check: the state stays as it is and no
  dialog opens.
\<close>

lemma handle_ImageCommand_full:
  assumes "maxImages \<le> int (length (attachedImages s))"
  shows "handle (s, waiting) (ImageCommand maxImages) = (s, waiting)"
  using assms by (simp add: handleImageAttachment_check_def)

text \<open>A call below the limit goes on to its dialog, whatever other calls are waiting.\<close>

lemma handle_ImageCommand_below:
  assumes "int (length (attachedImages s)) < maxImages"
  shows "handle (s, waiting) (ImageCommand maxImages) = (s, Suc waiting)"
  using assms by (simp add: handleImageAttachment_check_def)

text \<open>When its dialog returns a readable image, a waiting call appends it, at any count.\<close>

lemma handle_DialogClosed_appends:
  assumes "read_base64 fs p = Some d"
  shows "length (attachedImages (fst (handle (s, Suc waiting) (DialogClosed (Some p) fs)))) =
    Suc (length (attachedImages s))"
  using assms by (simp add: handleImageAttachment_resume_def Let_def)

text \<open>Events that are undivided actions are a run of those actions.\<close>

lemma dispatch_Undivided:
  "dispatch s (map Undivided acts) = (run s acts, 0)"
proof -
  have "foldl handle (s, n) (map Undivided acts) = (foldl step s acts, n)" for n
    by (induction acts arbitrary: s) simp_all
  then show ?thesis
    by (simp add: dispatch_def run_def)
qed


text \<open>
  C9. Below the limit, \<open>handleImageAttachment\<close> appends the image it read even when an
  attached image already has the same name: it shows no warning and the store then holds
  at least two images of that name. \<open>handleFileAttachment\<close> differs: a path that a file
  already has is answered with the warning and the state stays as it is.
\<close>

theorem handleImageAttachment_keeps_duplicates:
  assumes "int (length (attachedImages s)) < maxImages"
    and "read_base64 fs p = Some d"
    and "img \<in> set (attachedImages s)"
    and "image_name img = basename p"
  shows "attachedImages (fst (handleImageAttachment s maxImages (Some p) fs)) =
      attachedImages s @
        [\<lparr>image_name = basename p, image_data = d,
          image_mediaType = getMediaType (toLowerCase (extname (basename p)))\<rparr>] \<and>
    snd (handleImageAttachment s maxImages (Some p) fs) =
      updateChatAttachments (fst (handleImageAttachment s maxImages (Some p) fs)) \<and>
    2 \<le> length (filter (\<lambda>i. image_name i = basename p)
           (attachedImages (fst (handleImageAttachment s maxImages (Some p) fs)))) \<and>
    (\<forall>q c. find (\<lambda>f. file_path f = Some q) (attachedFiles s) \<noteq> None \<longrightarrow>
       read_utf8 fs q = Some c \<longrightarrow>
       handleFileAttachment s (Some q) fs = (s, [ShowWarningMessage ''File already attached'']))"
proof -
  have "filter (\<lambda>i. image_name i = basename p) (attachedImages s) \<noteq> []"
    using assms(3,4) by (auto simp: filter_empty_conv)
  then have "1 \<le> length (filter (\<lambda>i. image_name i = basename p) (attachedImages s))"
    by (simp add: Suc_le_eq)
  moreover have "handleFileAttachment s (Some q) fs =
      (s, [ShowWarningMessage ''File already attached''])"
    if "find (\<lambda>f. file_path f = Some q) (attachedFiles s) \<noteq> None" "read_utf8 fs q = Some c"
    for q c
    using that by (simp add: handleFileAttachment_def Let_def)
  ultimately show ?thesis
    by (simp add: handleImageAttachment_inserts [OF assms(1,2)])
qed

theorem handleImageAttachment_keeps_duplicates_witness:
  "int (length (attachedImages pictureSession)) < 3 \<and>
   read_base64 disk ''/w/one.png'' = Some ''iVBORw0KGgo='' \<and>
   \<lparr>image_name = ''one.png'', image_data = ''iVBORw0KGgo='', image_mediaType = ''image/png''\<rparr>
     \<in> set (attachedImages pictureSession) \<and>
   basename ''/w/one.png'' = ''one.png'' \<and>
   map image_name
     (attachedImages (fst (handleImageAttachment pictureSession 3 (Some ''/w/one.png'') disk))) =
     [''one.png'', ''two.jpg'', ''one.png''] \<and>
   2 \<le> length (filter (\<lambda>i. image_name i = ''one.png'')
     (attachedImages (fst (handleImageAttachment pictureSession 3 (Some ''/w/one.png'') disk)))) \<and>
   find (\<lambda>f. file_path f = Some ''/w/a.py'') (attachedFiles pictureSession) \<noteq> None \<and>
   read_utf8 disk ''/w/a.py'' = Some ''print(1)'' \<and>
   handleFileAttachment pictureSession (Some ''/w/a.py'') disk =
     (pictureSession, [ShowWarningMessage ''File already attached''])"
proof -
  let ?img = "\<lparr>image_name = ''one.png'', image_data = ''iVBORw0KGgo='',
    image_mediaType = ''image/png''\<rparr>"
  let ?s = "fst (handleImageAttachment pictureSession 3 (Some ''/w/one.png'') disk)"
  have a: "int (length (attachedImages pictureSession)) < 3"
    by (simp add: pictureSession_def)
  have r: "read_base64 disk ''/w/one.png'' = Some ''iVBORw0KGgo=''"
    by (simp add: disk_def)
  have m: "?img \<in> set (attachedImages pictureSession)"
    by (simp add: pictureSession_def)
  have n: "basename ''/w/one.png'' = ''one.png''"
    by (simp add: basename_def)
  have n': "image_name ?img = basename ''/w/one.png''"
    by (simp add: n)
  have f: "find (\<lambda>f. file_path f = Some ''/w/a.py'') (attachedFiles pictureSession) \<noteq> None"
    by (simp add: pictureSession_def)
  have u: "read_utf8 disk ''/w/a.py'' = Some ''print(1)''"
    by (simp add: disk_def)
  note dup = handleImageAttachment_keeps_duplicates [OF a r m n']
  have "attachedImages ?s = attachedImages pictureSession @
      [\<lparr>image_name = basename ''/w/one.png'', image_data = ''iVBORw0KGgo='',
        image_mediaType = getMediaType (toLowerCase (extname (basename ''/w/one.png'')))\<rparr>]"
    using dup by blast
  then have l: "map image_name (attachedImages ?s) = [''one.png'', ''two.jpg'', ''one.png'']"
    by (simp add: n) (simp add: pictureSession_def)
  have "2 \<le> length (filter (\<lambda>i. image_name i = basename ''/w/one.png'') (attachedImages ?s))"
    using dup by blast
  then have t: "2 \<le> length (filter (\<lambda>i. image_name i = ''one.png'') (attachedImages ?s))"
    unfolding n .
  have w: "handleFileAttachment pictureSession (Some ''/w/a.py'') disk =
      (pictureSession, [ShowWarningMessage ''File already attached''])"
    using dup f u by blast
  show ?thesis
    using a r m n l t f u w by blast
qed

section \<open>Attaching files\<close>

lemma find_path_iff:
  "find (\<lambda>f. file_path f = Some p) fs = None \<longleftrightarrow> Some p \<notin> set (map file_path fs)"
  by (induction fs) auto

lemma handleFileAttachment_present:
  assumes "Some p \<in> set (map file_path (attachedFiles s))" and "read_utf8 fs p = Some c"
  shows "handleFileAttachment s (Some p) fs = (s, [ShowWarningMessage ''File already attached''])"
  using assms by (simp add: handleFileAttachment_def Let_def find_path_iff)

lemma handleFileAttachment_new:
  assumes "Some p \<notin> set (map file_path (attachedFiles s))" and "read_utf8 fs p = Some c"
  shows "attachedFiles (fst (handleFileAttachment s (Some p) fs)) =
    attachedFiles s @
      [\<lparr>file_name = basename p, file_content = c,
        file_language = Some (getLanguageFromExtension (extname (basename p))),
        file_path = Some p\<rparr>]"
  using assms by (simp add: handleFileAttachment_def Let_def find_path_iff)

lemma handleFileAttachment_distinct:
  assumes "distinct (map file_path (attachedFiles s))"
  shows "distinct (map file_path (attachedFiles (fst (handleFileAttachment s dialog fs))))"
proof (cases dialog)
  case None
  with assms show ?thesis
    by (simp add: handleFileAttachment_def)
next
  case (Some p)
  show ?thesis
  proof (cases "read_utf8 fs p")
    case None
    with assms Some show ?thesis
      by (simp add: handleFileAttachment_def)
  next
    case (Some c)
    show ?thesis
    proof (cases "Some p \<in> set (map file_path (attachedFiles s))")
      case True
      with assms \<open>dialog = Some p\<close> Some show ?thesis
        by (simp add: handleFileAttachment_present)
    next
      case False
      with assms \<open>dialog = Some p\<close> Some show ?thesis
        by (simp add: handleFileAttachment_new)
    qed
  qed
qed

lemma manual_step_distinct:
  assumes "manual a" and "distinct (map file_path (attachedFiles s))"
  shows "distinct (map file_path (attachedFiles (step s a)))"
proof (cases a)
  case (AttachFile dialog fs)
  with assms(2) show ?thesis
    by (simp add: handleFileAttachment_distinct)
next
  case (AttachImage m dialog fs)
  with assms(2) show ?thesis
    by (simp add: handleImageAttachment_def handleImageAttachment_check_def handleImageAttachment_resume_def Let_def split: option.splits)
next
  case (FocusChange autoAttach editor)
  with assms(1) show ?thesis
    by simp
next
  case (RemoveFile p)
  with assms(2) show ?thesis
    by (simp add: removeAttachedFile_files distinct_map_filter)
next
  case (RemoveImage n)
  with assms(2) show ?thesis
    by (simp add: removeAttachedImage_def Let_def)
qed

text \<open>
  Without a change of focus the paths of the attached files stay distinct: the check of
  \<open>handleFileAttachment\<close> keeps them so.
\<close>

lemma manual_run_distinct:
  assumes "list_all manual acts" and "distinct (map file_path (attachedFiles s))"
  shows "distinct (map file_path (attachedFiles (run s acts)))"
  using assms unfolding run_def
proof (induction acts arbitrary: s)
  case Nil
  then show ?case by simp
next
  case (Cons a acts)
  from Cons.prems have "distinct (map file_path (attachedFiles (step s a)))"
    by (simp add: manual_step_distinct)
  with Cons.prems(1) Cons.IH show ?case
    by simp
qed

text \<open>
  C1. The paths of the attached files do not stay distinct under every sequence of
  operations. \<open>attachCurrentFile\<close> appends the focused document without looking for
  its path among the attached files: after a file has been attached by hand, focusing
  the editor that shows it leaves two files with the same path.
\<close>

theorem attachCurrentFile_duplicates_path:
  "map file_path (attachedFiles (run emptySession attachThenFocus)) =
     [Some ''/w/a.py'', Some ''/w/a.py''] \<and>
   \<not> distinct (map file_path (attachedFiles (run emptySession attachThenFocus)))"
proof -
  have "map file_path (attachedFiles (run emptySession attachThenFocus)) =
      [Some ''/w/a.py'', Some ''/w/a.py'']"
    by code_simp
  then show ?thesis
    by simp
qed

end
